theory Spec2Isabelle
  imports Complex_Main
begin

section \<open>Whoofy: the embedding, detection and OCR command-line tools\<close>

text \<open>
  A shallow embedding of \<^verbatim>\<open>clip_similarity.py\<close>, \<^verbatim>\<open>detect.py\<close> and \<^verbatim>\<open>ocr.py\<close>.
  The pretrained models and the libraries around them (CLIP, PIL, torch, YOLO, Tesseract,
  the file system) are the environment: each library call that can raise is a function of
  the environment returning \<open>Inl message\<close> for the exception or \<open>Inr value\<close>.
  Every \<^verbatim>\<open>try/except\<close> of the source is a case distinction on such a result.
  Python floats and float32 tensor entries are modelled as real numbers, so rounding, NaN
  and infinities are outside the model.
\<close>

subsection \<open>Tensor arithmetic used by the embedding service\<close>

text \<open>A tensor of shape \<open>(1, n)\<close> is the list of the \<open>n\<close> entries of its only row.\<close>

definition l2norm :: "real list \<Rightarrow> real" where
  "l2norm v = sqrt (sum_list (map (\<lambda>x. x * x) v))"

text \<open>\<^verbatim>\<open>embedding / embedding.norm(dim=-1, keepdim=True)\<close>. For a row of norm zero
  the float code divides zero by zero, which the real numbers here do not show: the model
  returns the zero row.\<close>

definition l2_normalize :: "real list \<Rightarrow> real list" where
  "l2_normalize v = map (\<lambda>x. x / l2norm v) v"

definition dot :: "real list \<Rightarrow> real list \<Rightarrow> real" where
  "dot a b = sum_list (map2 (*) a b)"

text \<open>
  \<^verbatim>\<open>torch.cosine_similarity(x1, x2)\<close> with its defaults \<^verbatim>\<open>dim=1, eps=1e-8\<close>, as the
  library documents it: the two rows are broadcast to a common length (a row of one entry
  is repeated), a shape that cannot be broadcast raises, and the result is
  \<open>x1 \<cdot> x2 / (max (\<parallel>x1\<parallel>, eps) * max (\<parallel>x2\<parallel>, eps))\<close>.
\<close>

definition eps :: real where
  "eps = 1 / 10 ^ 8"

definition broadcast :: "real list \<Rightarrow> real list \<Rightarrow> (real list \<times> real list) option" where
  "broadcast a b =
     (if length a = length b then Some (a, b)
      else if length a = 1 then Some (replicate (length b) (hd a), b)
      else if length b = 1 then Some (a, replicate (length a) (hd b))
      else None)"

definition cosine :: "real list \<Rightarrow> real list \<Rightarrow> real" where
  "cosine a b = dot a b / (max (l2norm a) eps * max (l2norm b) eps)"

definition cosine_similarity :: "real list \<Rightarrow> real list \<Rightarrow> string + real" where
  "cosine_similarity x1 x2 =
     (case broadcast x1 x2 of
        None \<Rightarrow> Inl ''The size of tensor a must match the size of tensor b at non-singleton dimension 1''
      | Some (a, b) \<Rightarrow> Inr (cosine a b))"

subsection \<open>JSON values read from the embedding file\<close>

datatype json =
    JNull
  | JBool bool
  | JNum real
  | JStr string
  | JArr "json list"
  | JObj "(string \<times> json) list"

text \<open>
  \<^verbatim>\<open>torch.tensor(reference_embedding_list, dtype=torch.float32).unsqueeze(0)\<close>: a flat
  list of numbers (JSON booleans count as 0 and 1) gives the row of its entries, a bare
  number gives a row of one entry. Strings, null and objects raise. A nested list is
  taken to raise as well: with it the later \<^verbatim>\<open>.item()\<close> is applied to a result of more
  than one element.
\<close>

fun json_scalar :: "json \<Rightarrow> real option" where
  "json_scalar (JNum x) = Some x"
| "json_scalar (JBool b) = Some (if b then 1 else 0)"
| "json_scalar _ = None"

fun torch_tensor :: "json \<Rightarrow> string + real list" where
  "torch_tensor (JArr xs) =
     (if \<forall>x \<in> set xs. json_scalar x \<noteq> None then Inr (map (\<lambda>x. the (json_scalar x)) xs)
      else Inl ''could not build a float32 tensor from the embedding'')"
| "torch_tensor (JNum x) = Inr [x]"
| "torch_tensor (JBool b) = Inr [if b then 1 else 0]"
| "torch_tensor _ = Inl ''could not build a float32 tensor from the embedding''"

subsection \<open>The environment and the process state of \<^verbatim>\<open>clip_similarity.py\<close>\<close>

text \<open>
  \<open>'h\<close> is the triple \<^verbatim>\<open>(model, preprocess, device)\<close> that a successful load returns,
  \<open>'img\<close> a decoded image.
  \<^item> \<open>clip_load n\<close>: what the body of \<^verbatim>\<open>load_clip_model\<close> (device selection,
    \<^verbatim>\<open>clip.load("ViT-B/32")\<close>, \<^verbatim>\<open>model.eval()\<close>) does on its \<open>n\<close>-th run in
    this process, counted from 0: the exception's message or the triple.
  \<^item> \<open>image_open p\<close>: \<^verbatim>\<open>Image.open(p).convert('RGB')\<close>.
  \<^item> \<open>encode_image h img\<close>: preprocessing and \<^verbatim>\<open>model.encode_image\<close>, the raw
    (not yet normalized) embedding row.
  \<^item> \<open>path_exists\<close>: \<^verbatim>\<open>os.path.exists\<close>.
  \<^item> \<open>json_load p\<close>: \<^verbatim>\<open>open(p)\<close> and \<^verbatim>\<open>json.load\<close>.
  \<^item> \<open>clip_installed\<close>: whether the imports at the top of the script succeed.
\<close>

record ('h, 'img) clip_env =
  clip_installed :: bool
  clip_load :: "nat \<Rightarrow> string + 'h"
  image_open :: "string \<Rightarrow> string + 'img"
  encode_image :: "'h \<Rightarrow> 'img \<Rightarrow> string + real list"
  path_exists :: "string \<Rightarrow> bool"
  json_load :: "string \<Rightarrow> string + json"

text \<open>
  The globals \<^verbatim>\<open>_model_cache, _preprocess_cache, _device_cache\<close> are only ever written
  together, so they are one optional triple. \<open>load_calls\<close> is a ghost counter of the runs
  of \<^verbatim>\<open>load_clip_model\<close> so far.
\<close>

record 'h clip_state =
  model_cache :: "'h option"
  load_calls :: nat

definition initial_state :: "'h clip_state" where
  "initial_state = \<lparr>model_cache = None, load_calls = 0\<rparr>"

definition load_clip_model :: "('h, 'img) clip_env \<Rightarrow> nat \<Rightarrow> string + 'h" where
  "load_clip_model env n =
     (case clip_load env n of
        Inl e \<Rightarrow> Inl (''Failed to load CLIP model: '' @ e)
      | Inr h \<Rightarrow> Inr h)"

definition get_model ::
  "('h, 'img) clip_env \<Rightarrow> 'h clip_state \<Rightarrow> (string + 'h) \<times> 'h clip_state" where
  "get_model env s =
     (case model_cache s of
        None \<Rightarrow>
          (case load_clip_model env (load_calls s) of
             Inl e \<Rightarrow> (Inl e, s\<lparr>load_calls := Suc (load_calls s)\<rparr>)
           | Inr h \<Rightarrow> (Inr h, s\<lparr>model_cache := Some h, load_calls := Suc (load_calls s)\<rparr>))
      | Some h \<Rightarrow> (Inr h, s))"

text \<open>\<open>n\<close> calls of \<^verbatim>\<open>get_model\<close> one after the other: what each returned, and the
  state after the last.\<close>

fun get_model_calls ::
  "('h, 'img) clip_env \<Rightarrow> 'h clip_state \<Rightarrow> nat \<Rightarrow> (string + 'h) list \<times> 'h clip_state" where
  "get_model_calls env s 0 = ([], s)"
| "get_model_calls env s (Suc n) =
     (case get_model env s of
        (r, s') \<Rightarrow> (case get_model_calls env s' n of (rs, s'') \<Rightarrow> (r # rs, s'')))"

text \<open>
  When \<^verbatim>\<open>get_model\<close> returns the error dict, the callers' unpacking
  \<^verbatim>\<open>model, preprocess, device = get_model()\<close> raises (a dict of one key cannot be
  unpacked into three names) inside their \<^verbatim>\<open>try\<close>, so their
  \<^verbatim>\<open>isinstance(model, dict)\<close> branch is never reached and the error they return
  carries the unpacking message.
\<close>

definition unpack_error :: string where
  "unpack_error = ''not enough values to unpack (expected 3, got 1)''"

definition embed_image ::
  "('h, 'img) clip_env \<Rightarrow> 'h clip_state \<Rightarrow> string \<Rightarrow> (string + real list) \<times> 'h clip_state" where
  "embed_image env s image_path =
     (case get_model env s of
        (Inl e, s') \<Rightarrow> (Inl (''Failed to embed image: '' @ unpack_error), s')
      | (Inr h, s') \<Rightarrow>
          (case image_open env image_path of
             Inl e \<Rightarrow> (Inl (''Failed to embed image: '' @ e), s')
           | Inr img \<Rightarrow>
               (case encode_image env h img of
                  Inl e \<Rightarrow> (Inl (''Failed to embed image: '' @ e), s')
                | Inr raw \<Rightarrow> (Inr (l2_normalize raw), s'))))"

record similarity_result =
  similarity :: real
  match :: bool
  confidence :: string

definition compute_similarity ::
  "('h, 'img) clip_env \<Rightarrow> 'h clip_state \<Rightarrow> string \<Rightarrow> string \<Rightarrow>
     (string + similarity_result) \<times> 'h clip_state" where
  "compute_similarity env s reference_image_path frame_image_path =
     (case embed_image env s reference_image_path of
        (ref_embedding, s1) \<Rightarrow>
          (case embed_image env s1 frame_image_path of
             (frame_embedding, s2) \<Rightarrow>
               (case ref_embedding of
                  Inl e \<Rightarrow> (Inl e, s2)
                | Inr r \<Rightarrow>
                    (case frame_embedding of
                       Inl e \<Rightarrow> (Inl e, s2)
                     | Inr f \<Rightarrow>
                         (case cosine_similarity r f of
                            Inl e \<Rightarrow> (Inl (''Failed to compute similarity: '' @ e), s2)
                          | Inr c \<Rightarrow>
                              (let sim = max 0 c in
                               (Inr \<lparr>similarity = sim,
                                     match = (sim \<ge> 30 / 100),
                                     confidence =
                                       (if sim \<ge> 45 / 100 then ''high''
                                        else if sim \<ge> 35 / 100 then ''medium''
                                        else if sim \<ge> 30 / 100 then ''low''
                                        else ''none'')\<rparr>, s2)))))))"

text \<open>The thresholds in the words of the specification: match iff similarity is at least
  0.30; confidence high from 0.45, medium from 0.35, low from 0.30, else none.\<close>

definition bucketed :: "similarity_result \<Rightarrow> bool" where
  "bucketed r \<longleftrightarrow>
     (match r \<longleftrightarrow> similarity r \<ge> 30 / 100) \<and>
     confidence r =
       (if similarity r \<ge> 45 / 100 then ''high''
        else if similarity r \<ge> 35 / 100 then ''medium''
        else if similarity r \<ge> 30 / 100 then ''low''
        else ''none'')"

text \<open>The dict literal that \<open>compute_similarity\<close> and \<open>compare_with_embedding\<close> both
  end with, as a function of the cosine; the lemmas below show that each of the two
  returns it.\<close>

definition clamped_result :: "real \<Rightarrow> similarity_result" where
  "clamped_result c =
     \<lparr>similarity = max 0 c,
      match = (max 0 c \<ge> 30 / 100),
      confidence =
        (if max 0 c \<ge> 45 / 100 then ''high''
         else if max 0 c \<ge> 35 / 100 then ''medium''
         else if max 0 c \<ge> 30 / 100 then ''low''
         else ''none'')\<rparr>"

record embedding_result =
  embedding :: "real list"
  dimension :: nat

definition embed_reference ::
  "('h, 'img) clip_env \<Rightarrow> 'h clip_state \<Rightarrow> string \<Rightarrow>
     (string + embedding_result) \<times> 'h clip_state" where
  "embed_reference env s reference_image_path =
     (case embed_image env s reference_image_path of
        (Inl e, s') \<Rightarrow> (Inl e, s')
      | (Inr emb, s') \<Rightarrow> (Inr \<lparr>embedding = emb, dimension = length emb\<rparr>, s'))"

definition compare_with_embedding ::
  "('h, 'img) clip_env \<Rightarrow> 'h clip_state \<Rightarrow> string \<Rightarrow> json \<Rightarrow>
     (string + similarity_result) \<times> 'h clip_state" where
  "compare_with_embedding env s frame_image_path reference_embedding_list =
     (case get_model env s of
        (Inl e, s1) \<Rightarrow> (Inl (''Failed to compare with embedding: '' @ unpack_error), s1)
      | (Inr h, s1) \<Rightarrow>
          (case torch_tensor reference_embedding_list of
             Inl e \<Rightarrow> (Inl (''Failed to compare with embedding: '' @ e), s1)
           | Inr ref_embedding \<Rightarrow>
               (case embed_image env s1 frame_image_path of
                  (Inl e, s2) \<Rightarrow> (Inl e, s2)
                | (Inr f, s2) \<Rightarrow>
                    (case cosine_similarity ref_embedding f of
                       Inl e \<Rightarrow> (Inl (''Failed to compare with embedding: '' @ e), s2)
                     | Inr c \<Rightarrow>
                         (let sim = max 0 c in
                          (Inr \<lparr>similarity = sim,
                                match = (sim \<ge> 30 / 100),
                                confidence =
                                  (if sim \<ge> 45 / 100 then ''high''
                                   else if sim \<ge> 35 / 100 then ''medium''
                                   else if sim \<ge> 30 / 100 then ''low''
                                   else ''none'')\<rparr>, s2))))))"

subsection \<open>The comparison with the library call as a parameter\<close>

text \<open>
  What \<^verbatim>\<open>torch.cosine_similarity\<close> returns is computed in float32 and is the exact
  cosine only up to rounding. To say what \<open>compute_similarity\<close> does with whatever
  value that call returns, here is the same function once more with that one call as the
  parameter \<open>lib\<close>. With \<open>cosine_similarity\<close> for \<open>lib\<close> it is \<open>compute_similarity\<close>.
\<close>

definition compute_similarity_with ::
  "(real list \<Rightarrow> real list \<Rightarrow> string + real) \<Rightarrow> ('h, 'img) clip_env \<Rightarrow> 'h clip_state \<Rightarrow>
     string \<Rightarrow> string \<Rightarrow> (string + similarity_result) \<times> 'h clip_state" where
  "compute_similarity_with lib env s reference_image_path frame_image_path =
     (case embed_image env s reference_image_path of
        (ref_embedding, s1) \<Rightarrow>
          (case embed_image env s1 frame_image_path of
             (frame_embedding, s2) \<Rightarrow>
               (case ref_embedding of
                  Inl e \<Rightarrow> (Inl e, s2)
                | Inr r \<Rightarrow>
                    (case frame_embedding of
                       Inl e \<Rightarrow> (Inl e, s2)
                     | Inr f \<Rightarrow>
                         (case lib r f of
                            Inl e \<Rightarrow> (Inl (''Failed to compute similarity: '' @ e), s2)
                          | Inr c \<Rightarrow>
                              (let sim = max 0 c in
                               (Inr \<lparr>similarity = sim,
                                     match = (sim \<ge> 30 / 100),
                                     confidence =
                                       (if sim \<ge> 45 / 100 then ''high''
                                        else if sim \<ge> 35 / 100 then ''medium''
                                        else if sim \<ge> 30 / 100 then ''low''
                                        else ''none'')\<rparr>, s2)))))))"

subsection \<open>Python string operations\<close>

text \<open>
  Strings are byte strings here; the operations below are Python's on ASCII text.
  \<^verbatim>\<open>str.lower\<close> changes the letters A to Z only; whitespace is what \<^verbatim>\<open>str.isspace\<close>
  accepts below code 128.
\<close>

definition lower_char :: "char \<Rightarrow> char" where
  "lower_char c =
     (case map_of (zip ''ABCDEFGHIJKLMNOPQRSTUVWXYZ'' ''abcdefghijklmnopqrstuvwxyz'') c of
        Some d \<Rightarrow> d
      | None \<Rightarrow> c)"

definition str_lower :: "string \<Rightarrow> string" where
  "str_lower s = map lower_char s"

definition is_space :: "char \<Rightarrow> bool" where
  "is_space c \<longleftrightarrow>
     c \<in> set [CHR 0x09, CHR 0x0A, CHR 0x0B, CHR 0x0C, CHR 0x0D,
               CHR 0x1C, CHR 0x1D, CHR 0x1E, CHR 0x1F, CHR 0x20]"

definition str_strip :: "string \<Rightarrow> string" where
  "str_strip s = rev (dropWhile is_space (rev (dropWhile is_space s)))"

text \<open>\<^verbatim>\<open>s.split()\<close>: the maximal runs of non-whitespace; \<open>w\<close> is the run being read.\<close>

fun split_from :: "string \<Rightarrow> string \<Rightarrow> string list" where
  "split_from w [] = (if w = [] then [] else [w])"
| "split_from w (c # cs) =
     (if is_space c then (if w = [] then split_from [] cs else w # split_from [] cs)
      else split_from (w @ [c]) cs)"

definition str_split :: "string \<Rightarrow> string list" where
  "str_split s = split_from [] s"

fun str_join :: "string \<Rightarrow> string list \<Rightarrow> string" where
  "str_join sep [] = []"
| "str_join sep [x] = x"
| "str_join sep (x # y # ys) = x @ sep @ str_join sep (y # ys)"

text \<open>\<^verbatim>\<open>needle in haystack\<close> on strings.\<close>

fun str_contains :: "string \<Rightarrow> string \<Rightarrow> bool" where
  "str_contains needle [] = (needle = [])"
| "str_contains needle (c # cs) =
     (take (length needle) (c # cs) = needle \<or> str_contains needle cs)"

subsection \<open>What a run of a tool leaves behind\<close>

text \<open>
  One constructor for each JSON object a tool prints with \<^verbatim>\<open>print(json.dumps(...))\<close>.
  \<open>stdout\<close> lists the printed lines in order. An uncaught exception prints its traceback
  on standard error, nothing on standard output, and ends the process with code 1.
\<close>

datatype json_line =
    ErrorLine string
  | EmbeddingLine embedding_result
  | SimilarityLine similarity_result
  | ObjectsLine "string list"
  | TextLine string

record outcome =
  stdout :: "json_line list"
  exit_code :: nat

definition uncaught :: outcome where
  "uncaught = \<lparr>stdout = [], exit_code = 1\<rparr>"

definition fail_with :: "string \<Rightarrow> outcome" where
  "fail_with msg = \<lparr>stdout = [ErrorLine msg], exit_code = 1\<rparr>"

subsection \<open>The command line of \<^verbatim>\<open>clip_similarity.py\<close>\<close>

text \<open>\<^verbatim>\<open>"embedding" not in embedding_data\<close> and \<^verbatim>\<open>embedding_data["embedding"]\<close> on
  whatever \<^verbatim>\<open>json.load\<close> returned; \<open>None\<close> is the \<^verbatim>\<open>TypeError\<close> of a value that
  supports neither. Of a repeated key \<^verbatim>\<open>json.load\<close> keeps the last value.\<close>

fun has_embedding_key :: "json \<Rightarrow> bool option" where
  "has_embedding_key (JObj kvs) = Some (''embedding'' \<in> set (map fst kvs))"
| "has_embedding_key (JArr xs) = Some (JStr ''embedding'' \<in> set xs)"
| "has_embedding_key (JStr s) = Some (str_contains ''embedding'' s)"
| "has_embedding_key _ = None"

fun get_embedding :: "json \<Rightarrow> json option" where
  "get_embedding (JObj kvs) = map_of (rev kvs) ''embedding''"
| "get_embedding _ = None"

definition result_line :: "(string + 'a) \<Rightarrow> ('a \<Rightarrow> json_line) \<Rightarrow> json_line" where
  "result_line result ok = (case result of Inl e \<Rightarrow> ErrorLine e | Inr v \<Rightarrow> ok v)"

definition clip_main ::
  "('h, 'img) clip_env \<Rightarrow> string list \<Rightarrow> outcome \<times> 'h clip_state" where
  "clip_main env argv =
     (let s0 = initial_state in
      if \<not> clip_installed env then
        (fail_with ''CLIP dependencies not installed. Run: pip install torch torchvision pillow ftfy'', s0)
      else if length argv < 2 then
        (\<lparr>stdout =
            [ErrorLine ''Usage: python clip_similarity.py <command> [args...]'',
             ErrorLine ''Commands: embed <image_path> | similarity <ref_path> <frame_path> | compare <frame_path> <embedding_json>''],
          exit_code = 1\<rparr>, s0)
      else
        let command = str_lower (argv ! 1) in
        if command = ''embed'' then
          if length argv < 3 then
            (fail_with ''Usage: python clip_similarity.py embed <image_path>'', s0)
          else
            let image_path = argv ! 2 in
            if \<not> path_exists env image_path then
              (fail_with (''Image file not found: '' @ image_path), s0)
            else
              (case embed_reference env s0 image_path of
                 (result, s1) \<Rightarrow>
                   (\<lparr>stdout = [result_line result EmbeddingLine], exit_code = 0\<rparr>, s1))
        else if command = ''similarity'' then
          if length argv < 4 then
            (fail_with ''Usage: python clip_similarity.py similarity <reference_image_path> <frame_image_path>'', s0)
          else
            let ref_path = argv ! 2; frame_path = argv ! 3 in
            if \<not> path_exists env ref_path then
              (fail_with (''Reference image not found: '' @ ref_path), s0)
            else if \<not> path_exists env frame_path then
              (fail_with (''Frame image not found: '' @ frame_path), s0)
            else
              (case compute_similarity env s0 ref_path frame_path of
                 (result, s1) \<Rightarrow>
                   (\<lparr>stdout = [result_line result SimilarityLine], exit_code = 0\<rparr>, s1))
        else if command = ''compare'' then
          if length argv < 4 then
            (fail_with ''Usage: python clip_similarity.py compare <frame_image_path> <embedding_json_file>'', s0)
          else
            let frame_path = argv ! 2; embedding_file = argv ! 3 in
            if \<not> path_exists env frame_path then
              (fail_with (''Frame image not found: '' @ frame_path), s0)
            else if \<not> path_exists env embedding_file then
              (fail_with (''Embedding file not found: '' @ embedding_file), s0)
            else
              (case json_load env embedding_file of
                 Inl e \<Rightarrow> (uncaught, s0)
               | Inr embedding_data \<Rightarrow>
                   (case has_embedding_key embedding_data of
                      None \<Rightarrow> (uncaught, s0)
                    | Some False \<Rightarrow> (fail_with ''Invalid embedding file format'', s0)
                    | Some True \<Rightarrow>
                        (case get_embedding embedding_data of
                           None \<Rightarrow> (uncaught, s0)
                         | Some reference_embedding_list \<Rightarrow>
                             (case compare_with_embedding env s0 frame_path
                                     reference_embedding_list of
                                (result, s1) \<Rightarrow>
                                  (\<lparr>stdout = [result_line result SimilarityLine],
                                    exit_code = 0\<rparr>, s1)))))
        else
          (fail_with (''Unknown command: '' @ command), s0))"

subsection \<open>\<^verbatim>\<open>detect.py\<close>\<close>

text \<open>
  \<open>'y\<close> is the loaded detector.
  \<^item> \<open>yolo_load\<close>: \<^verbatim>\<open>YOLO('yolov8n.pt')\<close>.
  \<^item> \<open>yolo_predict model p conf\<close>: the call
    \<^verbatim>\<open>model(p, conf=conf, verbose=False, show=False)\<close>. The confidence floor is applied
    inside the library; the call returns the results, each with \<^verbatim>\<open>boxes\<close> either
    \<^verbatim>\<open>None\<close> or the list of its boxes, a box given by \<^verbatim>\<open>int(box.cls[0])\<close>.
  \<^item> \<open>yolo_names model\<close>: the dict \<^verbatim>\<open>model.names\<close>.
  \<^item> \<open>set_order\<close> fixes the order in which Python iterates a set of strings: the
    source gives no order, so it is a parameter and \<^verbatim>\<open>list(detected_classes)\<close>
    enumerates the set by it.
  \<^item> \<open>parse_float\<close>: \<^verbatim>\<open>float(sys.argv[2])\<close>, \<open>None\<close> when it raises.
\<close>

record 'y detect_env =
  yolo_installed :: bool
  yolo_load :: "string + 'y"
  yolo_predict :: "'y \<Rightarrow> string \<Rightarrow> real \<Rightarrow> string + int list option list"
  yolo_names :: "'y \<Rightarrow> int \<Rightarrow> string option"
  set_order :: "string \<Rightarrow> nat"
  parse_float :: "string \<Rightarrow> real option"
  image_exists :: "string \<Rightarrow> bool"

text \<open>The set \<^verbatim>\<open>detected_classes\<close> is kept as a list without repetitions. A class
  index missing from \<^verbatim>\<open>model.names\<close> raises \<^verbatim>\<open>KeyError\<close>, whose message is the index.\<close>

fun add_boxes :: "(int \<Rightarrow> string option) \<Rightarrow> int list \<Rightarrow> string list \<Rightarrow> string + string list" where
  "add_boxes names [] detected_classes = Inr detected_classes"
| "add_boxes names (class_id # boxes) detected_classes =
     (case names class_id of
        None \<Rightarrow> Inl ''KeyError''
      | Some class_name \<Rightarrow>
          add_boxes names boxes (List.insert (str_lower class_name) detected_classes))"

fun add_results ::
  "(int \<Rightarrow> string option) \<Rightarrow> int list option list \<Rightarrow> string list \<Rightarrow> string + string list" where
  "add_results names [] detected_classes = Inr detected_classes"
| "add_results names (None # results) detected_classes =
     add_results names results detected_classes"
| "add_results names (Some boxes # results) detected_classes =
     (case add_boxes names boxes detected_classes of
        Inl e \<Rightarrow> Inl e
      | Inr d \<Rightarrow> add_results names results d)"

definition list_of_set :: "(string \<Rightarrow> nat) \<Rightarrow> string list \<Rightarrow> string list" where
  "list_of_set order detected_classes = sort_key order (remdups detected_classes)"

definition detect_objects :: "'y detect_env \<Rightarrow> string \<Rightarrow> real \<Rightarrow> string + string list" where
  "detect_objects env image_path confidence_threshold =
     (case yolo_load env of
        Inl e \<Rightarrow> Inl e
      | Inr model \<Rightarrow>
          (case yolo_predict env model image_path confidence_threshold of
             Inl e \<Rightarrow> Inl e
           | Inr results \<Rightarrow>
               (case add_results (yolo_names env model) results [] of
                  Inl e \<Rightarrow> Inl e
                | Inr detected_classes \<Rightarrow> Inr (list_of_set (set_order env) detected_classes))))"

definition detect_main :: "'y detect_env \<Rightarrow> string list \<Rightarrow> outcome" where
  "detect_main env argv =
     (if \<not> yolo_installed env then
        fail_with ''ultralytics not installed. Run: pip install ultralytics''
      else if length argv < 2 then
        fail_with ''Usage: python detect.py <image_path> [confidence_threshold]''
      else
        let image_path = argv ! 1 in
        (case (if length argv > 2 then parse_float env (argv ! 2) else Some (25 / 100)) of
           None \<Rightarrow> uncaught
         | Some conf \<Rightarrow>
             if \<not> image_exists env image_path then
               fail_with (''Image file not found: '' @ image_path)
             else
               (case detect_objects env image_path conf of
                  Inl e \<Rightarrow> fail_with e
                | Inr result \<Rightarrow> \<lparr>stdout = [ObjectsLine result], exit_code = 0\<rparr>)))"

subsection \<open>\<^verbatim>\<open>ocr.py\<close>\<close>

text \<open>The three configurations of \<^verbatim>\<open>image_to_string\<close>: \<^verbatim>\<open>--psm 6\<close>,
  \<^verbatim>\<open>--psm 11\<close> and none.\<close>

datatype psm = Psm6 | Psm11 | PsmDefault

record 'img ocr_env =
  pytesseract_installed :: bool
  tesseract_available :: bool
  ocr_image_open :: "string \<Rightarrow> string + 'img"
  image_to_string :: "'img \<Rightarrow> psm \<Rightarrow> string + string"
  ocr_path_exists :: "string \<Rightarrow> bool"

definition tesseract_missing :: string where
  "tesseract_missing =
     ''tesseract is not installed or it's not in your PATH. See README file for more information.''"

text \<open>The loop over \<^verbatim>\<open>words\<close>: the state is \<^verbatim>\<open>(seen, unique_words)\<close>.\<close>

definition unique_step :: "string \<Rightarrow> string set \<times> string list \<Rightarrow> string set \<times> string list" where
  "unique_step word st =
     (case st of (seen, unique_words) \<Rightarrow>
        (let word_lower = str_lower word in
         if word_lower \<notin> seen then (insert word_lower seen, unique_words @ [word])
         else (seen, unique_words)))"

definition unique_words :: "string list \<Rightarrow> string list" where
  "unique_words words = snd (fold unique_step words ({}, []))"

text \<open>
  \<open>text1\<close> is \<open>None\<close> when the first pass raised: the name \<^verbatim>\<open>text1\<close> is then unbound,
  and the test \<^verbatim>\<open>text2 and text2 != text1\<close> of the second pass, evaluated for a
  non-empty \<^verbatim>\<open>text2\<close>, raises \<^verbatim>\<open>NameError\<close> inside the second pass's own
  \<^verbatim>\<open>try\<close>, whose bare \<^verbatim>\<open>except\<close> swallows it.
\<close>

definition read_text :: "'img ocr_env \<Rightarrow> string \<Rightarrow> string + string" where
  "read_text env image_path =
     (if \<not> tesseract_available env then Inl tesseract_missing
      else
        (case ocr_image_open env image_path of
           Inl error_msg \<Rightarrow>
             (if str_contains ''tesseract'' (str_lower error_msg)
                 \<or> str_contains ''not found'' (str_lower error_msg)
              then Inl tesseract_missing
              else Inl error_msg)
         | Inr img \<Rightarrow>
             (let text1 = (case image_to_string env img Psm6 of
                             Inl e \<Rightarrow> None
                           | Inr out \<Rightarrow> Some (str_strip out));
                  texts1 = (case text1 of
                              None \<Rightarrow> []
                            | Some t1 \<Rightarrow> if t1 \<noteq> [] then [t1] else []);
                  texts2 = (case image_to_string env img Psm11 of
                              Inl e \<Rightarrow> texts1
                            | Inr out \<Rightarrow>
                                (let text2 = str_strip out in
                                 if text2 = [] then texts1
                                 else (case text1 of
                                         None \<Rightarrow> texts1
                                       | Some t1 \<Rightarrow>
                                           if text2 \<noteq> t1 then texts1 @ [text2] else texts1)));
                  texts = (case image_to_string env img PsmDefault of
                             Inl e \<Rightarrow> texts2
                           | Inr out \<Rightarrow>
                               (let text3 = str_strip out in
                                if text3 \<noteq> [] \<and> text3 \<notin> set texts2 then texts2 @ [text3]
                                else texts2))
              in if texts \<noteq> [] then
                   Inr (str_join '' '' (unique_words (str_split (str_join '' '' texts))))
                 else Inr [])))"

definition ocr_main :: "'img ocr_env \<Rightarrow> string list \<Rightarrow> outcome" where
  "ocr_main env argv =
     (if \<not> pytesseract_installed env then
        fail_with ''pytesseract not installed. Run: pip install pytesseract pillow''
      else if length argv < 2 then
        fail_with ''Usage: python ocr.py <image_path>''
      else
        let image_path = argv ! 1 in
        if \<not> ocr_path_exists env image_path then
          fail_with (''Image file not found: '' @ image_path)
        else
          (case read_text env image_path of
             Inl e \<Rightarrow> fail_with e
           | Inr result \<Rightarrow> \<lparr>stdout = [TextLine result], exit_code = 0\<rparr>))"

subsection \<open>Concrete environments\<close>

text \<open>
  A small world for the embedding tool: the model always loads, the encoder returns rows
  of two entries, \<^verbatim>\<open>corrupt.jpg\<close> exists but cannot be decoded, \<^verbatim>\<open>missing.jpg\<close> does
  not exist, and \<^verbatim>\<open>no_key.json\<close> holds the JSON object \<^verbatim>\<open>{"dimension": 2}\<close>.
\<close>

definition demo_clip :: "(unit, string) clip_env" where
  "demo_clip =
     \<lparr>clip_installed = True,
      clip_load = (\<lambda>n. Inr ()),
      image_open = (\<lambda>p. if p = ''corrupt.jpg'' then Inl ''cannot identify image file'' else Inr p),
      encode_image = (\<lambda>h img. if img = ''ref.jpg'' then Inr [3, 4]
                               else if img = ''frame.jpg'' then Inr [4, 3]
                               else Inr [1, 0]),
      path_exists = (\<lambda>p. p \<noteq> ''missing.jpg''),
      json_load = (\<lambda>p. if p = ''no_key.json'' then Inr (JObj [(''dimension'', JNum 2)])
                         else Inl ''Expecting value'')\<rparr>"

text \<open>The same world, except that the first load of the model fails.\<close>

definition flaky_clip :: "(unit, string) clip_env" where
  "flaky_clip = demo_clip\<lparr>clip_load := (\<lambda>n. if n = 0 then Inl ''CUDA out of memory'' else Inr ())\<rparr>"

text \<open>The process state once the model has been loaded by the first call of
  \<^verbatim>\<open>load_clip_model\<close>.\<close>

definition loaded_state :: "unit clip_state" where
  "loaded_state = \<lparr>model_cache = Some (), load_calls = 1\<rparr>"


text \<open>A detector that finds a person, a dog and a second person in \<^verbatim>\<open>park.jpg\<close> and
  nothing anywhere else.\<close>

definition demo_detect :: "unit detect_env" where
  "demo_detect =
     \<lparr>yolo_installed = True,
      yolo_load = Inr (),
      yolo_predict = (\<lambda>m p c. if p = ''park.jpg'' then Inr [Some [0, 16, 0]] else Inr [Some []]),
      yolo_names = (\<lambda>m. [0 \<mapsto> ''Person'', 16 \<mapsto> ''dog'']),
      set_order = length,
      parse_float = (\<lambda>a. if a = ''0.5'' then Some (1 / 2) else None),
      image_exists = (\<lambda>p. True)\<rparr>"

text \<open>Two OCR worlds: in the first the passes read \<^verbatim>\<open>Acme Soda 12oz\<close>,
  \<^verbatim>\<open>SODA can\<close> and nothing; in the second the first pass raises instead.\<close>

definition demo_ocr :: "unit ocr_env" where
  "demo_ocr =
     \<lparr>pytesseract_installed = True,
      tesseract_available = True,
      ocr_image_open = (\<lambda>p. Inr ()),
      image_to_string = (\<lambda>img m. case m of
                            Psm6 \<Rightarrow> Inr ''Acme Soda 12oz ''
                          | Psm11 \<Rightarrow> Inr '' SODA can''
                          | PsmDefault \<Rightarrow> Inr []),
      ocr_path_exists = (\<lambda>p. True)\<rparr>"

definition block_pass_fails :: "unit ocr_env" where
  "block_pass_fails =
     demo_ocr\<lparr>image_to_string := (\<lambda>img m. case m of
                                       Psm6 \<Rightarrow> Inl ''Tesseract process timeout''
                                     | Psm11 \<Rightarrow> Inr ''SODA can''
                                     | PsmDefault \<Rightarrow> Inr [])\<rparr>"

section \<open>Properties of the tensor arithmetic\<close>

lemma cs_step:
  fixes d A B x y :: real
  assumes "d\<^sup>2 \<le> A * B" "0 \<le> A" "0 \<le> B"
  shows "(d + x * y)\<^sup>2 \<le> (A + x * x) * (B + y * y)"
proof -
  have "(2 * d * x * y)\<^sup>2 = 4 * (x * y)\<^sup>2 * d\<^sup>2"
    by (simp add: power2_eq_square algebra_simps)
  also have "\<dots> \<le> 4 * (x * y)\<^sup>2 * (A * B)"
    using assms(1) by (intro mult_left_mono) auto
  also have "\<dots> \<le> (A * y * y + B * x * x)\<^sup>2"
  proof -
    have "(A * y * y + B * x * x)\<^sup>2 - 4 * (x * y)\<^sup>2 * (A * B) = (A * y * y - B * x * x)\<^sup>2"
      by (simp add: power2_eq_square algebra_simps)
    moreover have "0 \<le> (A * y * y - B * x * x)\<^sup>2" by simp
    ultimately show ?thesis by linarith
  qed
  finally have "\<bar>2 * d * x * y\<bar> \<le> \<bar>A * y * y + B * x * x\<bar>"
    by (simp only: abs_le_square_iff)
  moreover have "0 \<le> A * y * y + B * x * x"
    using assms(2,3) by (simp add: mult.assoc)
  ultimately have "2 * d * x * y \<le> A * y * y + B * x * x" by linarith
  moreover have "(d + x * y)\<^sup>2 = d\<^sup>2 + 2 * d * x * y + x * x * y * y"
    by (simp add: power2_eq_square algebra_simps)
  moreover have "(A + x * x) * (B + y * y) = A * B + A * y * y + B * x * x + x * x * y * y"
    by (simp add: algebra_simps)
  ultimately show ?thesis using assms(1) by linarith
qed

lemma sum_sq_nonneg: "0 \<le> sum_list (map (\<lambda>x. x * x) (v :: real list))"
  by (induction v) auto

lemma dot_sq_le:
  "(dot a b)\<^sup>2 \<le> sum_list (map (\<lambda>x. x * x) a) * sum_list (map (\<lambda>x. x * x) b)"
proof (induction a arbitrary: b)
  case Nil
  show ?case by (simp add: dot_def)
next
  case (Cons x a)
  show ?case
  proof (cases b)
    case Nil
    then show ?thesis by (simp add: dot_def)
  next
    case (Cons y b')
    have "(dot a b' + x * y)\<^sup>2
        \<le> (sum_list (map (\<lambda>x. x * x) a) + x * x) * (sum_list (map (\<lambda>x. x * x) b') + y * y)"
      by (rule cs_step [OF Cons.IH sum_sq_nonneg sum_sq_nonneg])
    then show ?thesis using Cons by (simp add: dot_def add.commute)
  qed
qed

lemma l2norm_nonneg: "0 \<le> l2norm v"
  by (simp add: l2norm_def sum_sq_nonneg)

lemma abs_dot_le: "\<bar>dot a b\<bar> \<le> l2norm a * l2norm b"
proof -
  have "\<bar>dot a b\<bar> = sqrt ((dot a b)\<^sup>2)" by simp
  also have "\<dots> \<le> sqrt (sum_list (map (\<lambda>x. x * x) a) * sum_list (map (\<lambda>x. x * x) b))"
    using dot_sq_le by (simp only: real_sqrt_le_iff)
  also have "\<dots> = l2norm a * l2norm b"
    by (simp add: l2norm_def real_sqrt_mult)
  finally show ?thesis .
qed

lemma eps_pos: "0 < eps"
  by (simp add: eps_def)

lemma cosine_bounds: "- 1 \<le> cosine a b \<and> cosine a b \<le> 1"
proof -
  define D where "D = max (l2norm a) eps * max (l2norm b) eps"
  have D: "0 < D" using eps_pos by (simp add: D_def less_max_iff_disj)
  have "l2norm a * l2norm b \<le> D"
    unfolding D_def by (intro mult_mono) (auto simp: l2norm_nonneg le_max_iff_disj)
  with abs_dot_le [of a b] have "\<bar>dot a b\<bar> \<le> D" by linarith
  then have "dot a b \<le> 1 * D" and "- 1 * D \<le> dot a b" by linarith+
  then have "dot a b / D \<le> 1" and "- 1 \<le> dot a b / D"
    by (simp_all only: pos_divide_le_eq [OF D] pos_le_divide_eq [OF D])
  then show ?thesis by (simp add: cosine_def D_def)
qed

lemma dot_commute: "dot a b = dot b a"
proof -
  have "map2 (*) a b = map2 (*) b a"
  proof (induction a arbitrary: b)
    case (Cons x a)
    then show ?case by (cases b) (simp_all add: mult.commute)
  qed simp
  then show ?thesis by (simp add: dot_def)
qed

lemma cosine_commute: "cosine a b = cosine b a"
  by (simp add: cosine_def dot_commute mult.commute)

lemma broadcast_swap:
  "broadcast b a = map_option (\<lambda>(x, y). (y, x)) (broadcast a b)"
  by (auto simp: broadcast_def)

lemma cosine_similarity_commute: "cosine_similarity a b = cosine_similarity b a"
  by (auto simp: cosine_similarity_def broadcast_swap [of b a] cosine_commute
      split: option.splits)

lemma cosine_similarity_same_length:
  "length a = length b \<Longrightarrow> cosine_similarity a b = Inr (cosine a b)"
  by (simp add: cosine_similarity_def broadcast_def)

lemma length_l2_normalize [simp]: "length (l2_normalize v) = length v"
  by (simp add: l2_normalize_def)

lemma sum_sq_scale:
  fixes k :: real
  shows "sum_list (map (\<lambda>x. x * x) (map (\<lambda>x. x / k) v)) = sum_list (map (\<lambda>x. x * x) v) / (k * k)"
  by (induction v) (simp_all add: add_divide_distrib)

text \<open>A raw embedding that is not the zero row is normalized to length one, and for two
  rows of length one the library's cosine is their dot product.\<close>

lemma l2norm_scale:
  fixes k :: real
  shows "l2norm (map (\<lambda>x. x / k) v) = l2norm v / \<bar>k\<bar>"
  unfolding l2norm_def sum_sq_scale by (simp add: real_sqrt_divide)

lemma l2norm_l2_normalize:
  assumes "l2norm v \<noteq> 0"
  shows "l2norm (l2_normalize v) = 1"
  using assms l2norm_nonneg [of v] by (simp add: l2_normalize_def l2norm_scale)

lemma cosine_unit: "l2norm a = 1 \<Longrightarrow> l2norm b = 1 \<Longrightarrow> cosine a b = dot a b"
  by (simp add: cosine_def eps_def max_def)

section \<open>Properties of the model cache and the embedding functions\<close>

lemma get_model_cached: "model_cache s = Some h \<Longrightarrow> get_model env s = (Inr h, s)"
  by (simp add: get_model_def)

lemma get_model_Inr: "get_model env s = (Inr h, s') \<Longrightarrow> model_cache s' = Some h"
  by (auto simp: get_model_def split: option.splits sum.splits)

lemma get_model_Inl:
  "get_model env s = (Inl e, s') \<Longrightarrow>
     model_cache s = None \<and> s' = s\<lparr>load_calls := Suc (load_calls s)\<rparr>"
  by (auto simp: get_model_def split: option.splits sum.splits)

lemma get_model_again: "get_model env s = (Inr h, s') \<Longrightarrow> get_model env s' = (Inr h, s')"
  by (rule get_model_cached) (rule get_model_Inr)

lemma embed_image_Inr:
  "embed_image env s p = (Inr e, s') \<longleftrightarrow>
     (\<exists>h img raw. get_model env s = (Inr h, s') \<and> image_open env p = Inr img \<and>
        encode_image env h img = Inr raw \<and> e = l2_normalize raw)"
  by (auto simp: embed_image_def split: prod.splits sum.splits)

lemma embed_image_loaded:
  assumes "get_model env s = (Inr h, s')"
  shows "embed_image env s' p = (fst (embed_image env s p), s')"
    and "snd (embed_image env s p) = s'"
  using assms get_model_again [OF assms]
  by (simp_all add: embed_image_def split: sum.splits)

lemma torch_tensor_floats: "torch_tensor (JArr (map JNum xs)) = Inr xs"
  by (simp add: map_idI)

lemma torch_tensor_pair: "torch_tensor (JArr [JNum a, JNum b]) = Inr [a, b]"
  using torch_tensor_floats [of "[a, b]"] by simp

text \<open>What the two comparing functions return when they succeed, and when they do.\<close>

lemma clamped_result_fields:
  "similarity (clamped_result c) = max 0 c"
  "match (clamped_result c) \<longleftrightarrow> max 0 c \<ge> 30 / 100"
  "confidence (clamped_result c) =
     (if max 0 c \<ge> 45 / 100 then ''high''
      else if max 0 c \<ge> 35 / 100 then ''medium''
      else if max 0 c \<ge> 30 / 100 then ''low''
      else ''none'')"
  by (simp_all add: clamped_result_def)

lemma clamped_result_bucketed: "bucketed (clamped_result c)"
  unfolding bucketed_def clamped_result_fields by (rule conjI) (rule refl)+

lemma clamped_result_match: "match (clamped_result c) \<longleftrightarrow> confidence (clamped_result c) \<noteq> ''none''"
  unfolding clamped_result_fields by auto

lemma compute_similarity_value:
  assumes "embed_image env s a = (Inr ea, s1)" and "embed_image env s1 b = (Inr eb, s2)"
    and "cosine_similarity ea eb = Inr c"
  shows "compute_similarity env s a b = (Inr (clamped_result c), s2)"
  using assms by (simp add: compute_similarity_def clamped_result_def Let_def)

lemma compute_similarity_result:
  assumes "compute_similarity env s a b = (Inr r, s')"
  obtains ea eb s1 c where "embed_image env s a = (Inr ea, s1)"
    and "embed_image env s1 b = (Inr eb, s')" and "cosine_similarity ea eb = Inr c"
    and "r = clamped_result c"
proof -
  obtain ra s1 where 1: "embed_image env s a = (ra, s1)" by (cases "embed_image env s a")
  obtain rb s2 where 2: "embed_image env s1 b = (rb, s2)" by (cases "embed_image env s1 b")
  show ?thesis
  proof (cases ra)
    case (Inl e)
    with assms 1 2 show ?thesis by (simp add: compute_similarity_def)
  next
    case ra: (Inr x)
    show ?thesis
    proof (cases rb)
      case (Inl e)
      with assms 1 2 ra show ?thesis by (simp add: compute_similarity_def)
    next
      case rb: (Inr y)
      show ?thesis
      proof (cases "cosine_similarity x y")
        case (Inl e)
        with assms 1 2 ra rb show ?thesis by (simp add: compute_similarity_def)
      next
        case (Inr c)
        with assms 1 2 ra rb have "r = clamped_result c" and "s2 = s'"
          by (simp_all add: compute_similarity_def clamped_result_def Let_def)
        with 1 2 ra rb Inr show ?thesis by (intro that [of x s1 y c]) simp_all
      qed
    qed
  qed
qed

lemma compare_with_embedding_value:
  assumes "get_model env s = (Inr h, s1)" and "torch_tensor j = Inr rv"
    and "embed_image env s1 b = (Inr eb, s2)" and "cosine_similarity rv eb = Inr c"
  shows "compare_with_embedding env s b j = (Inr (clamped_result c), s2)"
  using assms by (simp add: compare_with_embedding_def clamped_result_def Let_def)

lemma compare_with_embedding_result:
  assumes "compare_with_embedding env s b j = (Inr r, s')"
  obtains h s1 rv eb c where "get_model env s = (Inr h, s1)" and "torch_tensor j = Inr rv"
    and "embed_image env s1 b = (Inr eb, s')" and "cosine_similarity rv eb = Inr c"
    and "r = clamped_result c"
proof -
  obtain g s1 where 1: "get_model env s = (g, s1)" by (cases "get_model env s")
  obtain rb s2 where 2: "embed_image env s1 b = (rb, s2)" by (cases "embed_image env s1 b")
  show ?thesis
  proof (cases g)
    case (Inl e)
    with assms 1 show ?thesis by (simp add: compare_with_embedding_def)
  next
    case g: (Inr h)
    show ?thesis
    proof (cases "torch_tensor j")
      case (Inl e)
      with assms 1 g show ?thesis by (simp add: compare_with_embedding_def)
    next
      case t: (Inr rv)
      show ?thesis
      proof (cases rb)
        case (Inl e)
        with assms 1 2 g t show ?thesis by (simp add: compare_with_embedding_def)
      next
        case rb: (Inr y)
        show ?thesis
        proof (cases "cosine_similarity rv y")
          case (Inl e)
          with assms 1 2 g t rb show ?thesis by (simp add: compare_with_embedding_def)
        next
          case (Inr c)
          with assms 1 2 g t rb have "r = clamped_result c" and "s2 = s'"
            by (simp_all add: compare_with_embedding_def clamped_result_def Let_def)
          with 1 2 g t rb Inr show ?thesis by (intro that [of h s1 rv y c]) simp_all
        qed
      qed
    qed
  qed
qed


subsection \<open>The demonstration world evaluated\<close>

lemma sqrt_25: "sqrt 25 = 5"
  by (rule real_sqrt_unique) simp_all

lemma l2norm_3_4: "l2norm [3, 4] = 5" "l2norm [4, 3] = 5"
  by (simp_all add: l2norm_def sqrt_25)

lemma l2norm_unit_pairs: "l2norm [3 / 5, 4 / 5] = 1" "l2norm [4 / 5, 3 / 5] = 1"
  by (simp_all add: l2norm_def)

lemma l2norm_axis: "l2norm [x, 0] = \<bar>x\<bar>"
  by (simp add: l2norm_def)

lemma demo_clip_fields:
  "clip_installed demo_clip"
  "clip_load demo_clip n = Inr ()"
  "image_open demo_clip p = (if p = ''corrupt.jpg'' then Inl ''cannot identify image file'' else Inr p)"
  "encode_image demo_clip h img =
     (if img = ''ref.jpg'' then Inr [3, 4] else if img = ''frame.jpg'' then Inr [4, 3] else Inr [1, 0])"
  "path_exists demo_clip p \<longleftrightarrow> p \<noteq> ''missing.jpg''"
  "json_load demo_clip p =
     (if p = ''no_key.json'' then Inr (JObj [(''dimension'', JNum 2)]) else Inl ''Expecting value'')"
  by (simp_all add: demo_clip_def)

lemma demo_get_model:
  "get_model demo_clip initial_state = (Inr (), loaded_state)"
  "get_model demo_clip loaded_state = (Inr (), loaded_state)"
  by (simp_all add: get_model_def load_clip_model_def demo_clip_fields initial_state_def
      loaded_state_def)

lemma demo_open:
  "image_open demo_clip ''ref.jpg'' = Inr ''ref.jpg''"
  "image_open demo_clip ''frame.jpg'' = Inr ''frame.jpg''"
  "image_open demo_clip ''unit.jpg'' = Inr ''unit.jpg''"
  "image_open demo_clip ''corrupt.jpg'' = Inl ''cannot identify image file''"
  by (simp_all add: demo_clip_fields)

lemma demo_encode:
  "encode_image demo_clip h ''ref.jpg'' = Inr [3, 4]"
  "encode_image demo_clip h ''frame.jpg'' = Inr [4, 3]"
  "encode_image demo_clip h ''unit.jpg'' = Inr [1, 0]"
  by (simp_all add: demo_clip_fields)

lemma demo_normalize:
  "l2_normalize [3, 4] = [3 / 5, 4 / 5]"
  "l2_normalize [4, 3] = [4 / 5, 3 / 5]"
  "l2_normalize [1, 0] = [1, 0]"
  by (simp_all add: l2_normalize_def l2norm_3_4 l2norm_axis)

lemma demo_embed:
  "embed_image demo_clip initial_state ''ref.jpg'' = (Inr [3 / 5, 4 / 5], loaded_state)"
  "embed_image demo_clip loaded_state ''ref.jpg'' = (Inr [3 / 5, 4 / 5], loaded_state)"
  "embed_image demo_clip initial_state ''frame.jpg'' = (Inr [4 / 5, 3 / 5], loaded_state)"
  "embed_image demo_clip loaded_state ''frame.jpg'' = (Inr [4 / 5, 3 / 5], loaded_state)"
  "embed_image demo_clip loaded_state ''unit.jpg'' = (Inr [1, 0], loaded_state)"
  by (simp_all only: embed_image_def demo_get_model demo_open demo_encode demo_normalize
      prod.case sum.case)

lemma demo_cosine: "cosine [3 / 5, 4 / 5] [4 / 5, 3 / 5] = 24 / 25"
  by (simp add: cosine_def l2norm_unit_pairs dot_def eps_def)

lemma demo_clamped:
  "clamped_result (24 / 25) = \<lparr>similarity = 24 / 25, match = True, confidence = ''high''\<rparr>"
  "clamped_result 1 = \<lparr>similarity = 1, match = True, confidence = ''high''\<rparr>"
  "clamped_result (1 / 10) = \<lparr>similarity = 1 / 10, match = False, confidence = ''none''\<rparr>"
  by (simp_all add: clamped_result_def)

lemma demo_compute_similarity:
  "compute_similarity demo_clip initial_state ''ref.jpg'' ''frame.jpg''
     = (Inr \<lparr>similarity = 24 / 25, match = True, confidence = ''high''\<rparr>, loaded_state)"
proof -
  have "cosine_similarity [3 / 5, 4 / 5] [4 / 5, 3 / 5] = Inr (24 / 25)"
    by (simp add: cosine_similarity_same_length demo_cosine)
  from compute_similarity_value [OF demo_embed(1) demo_embed(4) this]
  show ?thesis by (simp only: demo_clamped)
qed

lemma demo_compare:
  "compare_with_embedding demo_clip initial_state ''frame.jpg'' (JArr [JNum (3 / 5), JNum (4 / 5)])
     = (Inr \<lparr>similarity = 24 / 25, match = True, confidence = ''high''\<rparr>, loaded_state)"
proof -
  have "cosine_similarity [3 / 5, 4 / 5] [4 / 5, 3 / 5] = Inr (24 / 25)"
    by (simp add: cosine_similarity_same_length demo_cosine)
  from compare_with_embedding_value [OF demo_get_model(1) torch_tensor_pair demo_embed(4) this]
  show ?thesis by (simp only: demo_clamped)
qed


section \<open>The claims about the embedding service\<close>

text \<open>
  C10. In every successful result of \<open>compute_similarity\<close> and of
  \<open>compare_with_embedding\<close>, \<open>match\<close> is true exactly when \<open>confidence\<close> is not
  \<open>none\<close>.
\<close>

theorem match_iff_confidence_not_none:
  "(compute_similarity env s reference_image_path frame_image_path = (Inr r, s') \<longrightarrow>
      (match r \<longleftrightarrow> confidence r \<noteq> ''none''))
   \<and> (compare_with_embedding env t frame_path reference_embedding_list = (Inr r', t') \<longrightarrow>
      (match r' \<longleftrightarrow> confidence r' \<noteq> ''none''))"
proof (intro conjI impI)
  assume "compute_similarity env s reference_image_path frame_image_path = (Inr r, s')"
  then obtain c where "r = clamped_result c" by (rule compute_similarity_result)
  then show "match r \<longleftrightarrow> confidence r \<noteq> ''none''" by (simp only: clamped_result_match)
next
  assume "compare_with_embedding env t frame_path reference_embedding_list = (Inr r', t')"
  then obtain c where "r' = clamped_result c" by (rule compare_with_embedding_result)
  then show "match r' \<longleftrightarrow> confidence r' \<noteq> ''none''" by (simp only: clamped_result_match)
qed

theorem match_iff_confidence_not_none_witness:
  "compute_similarity demo_clip initial_state ''ref.jpg'' ''frame.jpg''
     = (Inr \<lparr>similarity = 24 / 25, match = True, confidence = ''high''\<rparr>, loaded_state)
   \<and> compare_with_embedding demo_clip initial_state ''frame.jpg'' (JArr [JNum (3 / 5), JNum (4 / 5)])
     = (Inr \<lparr>similarity = 24 / 25, match = True, confidence = ''high''\<rparr>, loaded_state)
   \<and> (match \<lparr>similarity = 24 / 25, match = True, confidence = ''high''\<rparr>
        \<longleftrightarrow> confidence \<lparr>similarity = 24 / 25, match = True, confidence = ''high''\<rparr> \<noteq> ''none'')"
  using match_iff_confidence_not_none [of demo_clip initial_state "''ref.jpg''" "''frame.jpg''"
      "\<lparr>similarity = 24 / 25, match = True, confidence = ''high''\<rparr>" loaded_state
      initial_state "''frame.jpg''" "JArr [JNum (3 / 5), JNum (4 / 5)]"
      "\<lparr>similarity = 24 / 25, match = True, confidence = ''high''\<rparr>" loaded_state]
    demo_compute_similarity demo_compare
  by simp

text \<open>
  C6. \<open>get_model\<close> memoizes a successful load only. Once a call has returned the
  triple \<open>h\<close>, each of any number \<open>n\<close> of further calls returns \<open>h\<close> and leaves the
  state, with its count of loads, as it is. A call that returns an error leaves the cache
  empty and has counted one load, and the call after it runs \<open>load_clip_model\<close> once
  more: it returns what that run returns and counts it.
\<close>

theorem get_model_memoizes_success_only:
  "(get_model env s = (Inr h, s1) \<longrightarrow>
      model_cache s1 = Some h \<and> get_model_calls env s1 n = (replicate n (Inr h), s1))
   \<and> (get_model env s = (Inl e, s1) \<longrightarrow>
      model_cache s1 = None \<and> load_calls s1 = Suc (load_calls s) \<and>
      fst (get_model env s1) = load_clip_model env (load_calls s1) \<and>
      load_calls (snd (get_model env s1)) = Suc (load_calls s1))"
proof (intro conjI impI)
  assume ok: "get_model env s = (Inr h, s1)"
  then show "model_cache s1 = Some h" by (rule get_model_Inr)
  from ok have again: "get_model env s1 = (Inr h, s1)" by (rule get_model_again)
  show "get_model_calls env s1 n = (replicate n (Inr h), s1)"
    by (induction n) (simp_all add: again)
next
  assume "get_model env s = (Inl e, s1)"
  then have s: "model_cache s = None" and s1: "s1 = s\<lparr>load_calls := Suc (load_calls s)\<rparr>"
    by (simp_all add: get_model_Inl)
  from s s1 show "model_cache s1 = None" by simp
  then show "fst (get_model env s1) = load_clip_model env (load_calls s1)"
    and "load_calls (snd (get_model env s1)) = Suc (load_calls s1)"
    by (simp_all add: get_model_def split: sum.splits)
  from s1 show "load_calls s1 = Suc (load_calls s)" by simp
qed

lemma flaky_get_model:
  "get_model flaky_clip initial_state
     = (Inl ''Failed to load CLIP model: CUDA out of memory'', \<lparr>model_cache = None, load_calls = 1\<rparr>)"
  "get_model flaky_clip \<lparr>model_cache = None, load_calls = 1\<rparr>
     = (Inr (), \<lparr>model_cache = Some (), load_calls = 2\<rparr>)"
  by (simp_all add: get_model_def load_clip_model_def flaky_clip_def initial_state_def)

theorem get_model_memoizes_success_only_witness:
  "get_model flaky_clip initial_state
     = (Inl ''Failed to load CLIP model: CUDA out of memory'', \<lparr>model_cache = None, load_calls = 1\<rparr>)
   \<and> fst (get_model flaky_clip \<lparr>model_cache = None, load_calls = 1\<rparr>)
       = load_clip_model flaky_clip 1
   \<and> get_model flaky_clip \<lparr>model_cache = None, load_calls = 1\<rparr>
       = (Inr (), \<lparr>model_cache = Some (), load_calls = 2\<rparr>)
   \<and> get_model_calls flaky_clip \<lparr>model_cache = Some (), load_calls = 2\<rparr> 3
       = ([Inr (), Inr (), Inr ()], \<lparr>model_cache = Some (), load_calls = 2\<rparr>)"
  using get_model_memoizes_success_only [of flaky_clip initial_state "()"
      "\<lparr>model_cache = None, load_calls = 1\<rparr>" 0
      "''Failed to load CLIP model: CUDA out of memory''"]
    get_model_memoizes_success_only [of flaky_clip "\<lparr>model_cache = None, load_calls = 1\<rparr>" "()"
      "\<lparr>model_cache = Some (), load_calls = 2\<rparr>" 3 "[]"]
    flaky_get_model
  by (simp add: numeral_3_eq_3)

text \<open>
  C9. For images \<open>a\<close> and \<open>b\<close> that both embed, \<open>compute_similarity\<close> returns the same
  for \<open>(b, a)\<close> as for \<open>(a, b)\<close>: called from the same state, and called as the next
  call in the same process.
\<close>

theorem compute_similarity_symmetric:
  assumes a: "embed_image env s a = (Inr ea, s1)"
    and b: "embed_image env s1 b = (Inr eb, s2)"
  shows "compute_similarity env s b a = compute_similarity env s a b
       \<and> compute_similarity env s2 b a = compute_similarity env s a b"
proof -
  from a obtain h where h: "get_model env s = (Inr h, s1)"
    by (auto simp: embed_image_Inr)
  have same: "embed_image env s p = embed_image env s1 p" for p
    using embed_image_loaded [OF h, of p] by (metis prod.collapse)
  have stay: "snd (embed_image env s1 p) = s1" for p
    using embed_image_loaded(2) [OF h, of p] same [of p] by simp
  from b stay [of b] have s2: "s2 = s1" by simp
  from a same [of a] have a1: "embed_image env s1 a = (Inr ea, s1)" by simp
  from b s2 have b1: "embed_image env s1 b = (Inr eb, s1)" by simp
  from b1 same [of b] have b0: "embed_image env s b = (Inr eb, s1)" by simp
  have ab: "compute_similarity env s a b
      = (case cosine_similarity ea eb of
           Inl e \<Rightarrow> (Inl (''Failed to compute similarity: '' @ e), s1)
         | Inr c \<Rightarrow> (Inr (clamped_result c), s1))"
    by (simp add: compute_similarity_def a b1 clamped_result_def Let_def split: sum.splits)
  have ba: "compute_similarity env s b a
      = (case cosine_similarity eb ea of
           Inl e \<Rightarrow> (Inl (''Failed to compute similarity: '' @ e), s1)
         | Inr c \<Rightarrow> (Inr (clamped_result c), s1))"
    by (simp add: compute_similarity_def b0 a1 clamped_result_def Let_def split: sum.splits)
  have ba1: "compute_similarity env s1 b a
      = (case cosine_similarity eb ea of
           Inl e \<Rightarrow> (Inl (''Failed to compute similarity: '' @ e), s1)
         | Inr c \<Rightarrow> (Inr (clamped_result c), s1))"
    by (simp add: compute_similarity_def b1 a1 clamped_result_def Let_def split: sum.splits)
  show ?thesis
    by (simp only: ab ba ba1 s2 cosine_similarity_commute [of eb ea])
qed

lemma demo_compute_similarity_swapped:
  "compute_similarity demo_clip initial_state ''frame.jpg'' ''ref.jpg''
     = (Inr \<lparr>similarity = 24 / 25, match = True, confidence = ''high''\<rparr>, loaded_state)"
proof -
  have "cosine_similarity [4 / 5, 3 / 5] [3 / 5, 4 / 5] = Inr (24 / 25)"
    by (simp add: cosine_similarity_same_length cosine_commute [of "[4 / 5, 3 / 5]"] demo_cosine)
  from compute_similarity_value [OF demo_embed(3) demo_embed(2) this]
  show ?thesis by (simp only: demo_clamped)
qed

theorem compute_similarity_symmetric_witness:
  "compute_similarity demo_clip initial_state ''frame.jpg'' ''ref.jpg''
     = compute_similarity demo_clip initial_state ''ref.jpg'' ''frame.jpg''
   \<and> compute_similarity demo_clip loaded_state ''frame.jpg'' ''ref.jpg''
     = compute_similarity demo_clip initial_state ''ref.jpg'' ''frame.jpg''
   \<and> compute_similarity demo_clip initial_state ''frame.jpg'' ''ref.jpg''
     = (Inr \<lparr>similarity = 24 / 25, match = True, confidence = ''high''\<rparr>, loaded_state)"
  using compute_similarity_symmetric [OF demo_embed(1) demo_embed(4)]
    demo_compute_similarity_swapped
  by simp

subsection \<open>What holds of the result, and what the source leaves to the library\<close>

lemma compute_similarity_with_cosine_similarity:
  "compute_similarity_with cosine_similarity env s a b = compute_similarity env s a b"
  by (simp add: compute_similarity_with_def compute_similarity_def)

lemma compute_similarity_with_value:
  assumes "embed_image env s a = (Inr ea, s1)" and "embed_image env s1 b = (Inr eb, s2)"
    and "lib ea eb = Inr c"
  shows "compute_similarity_with lib env s a b = (Inr (clamped_result c), s2)"
  using assms by (simp add: compute_similarity_with_def clamped_result_def Let_def)

text \<open>
  Whatever value \<open>c\<close> the library call returns for the two embeddings, the similarity
  returned is \<open>max 0 c\<close>, it is not negative, and match and confidence follow the
  thresholds. The source has no upper clamp: the similarity is at most 1 exactly when
  \<open>c\<close> is.
\<close>

lemma clamped_below_and_bucketed_for_any_library_result:
  assumes "embed_image env s a = (Inr ea, s1)" and "embed_image env s1 b = (Inr eb, s2)"
    and "lib ea eb = Inr c"
  shows "\<exists>r. compute_similarity_with lib env s a b = (Inr r, s2)
      \<and> similarity r = max 0 c \<and> 0 \<le> similarity r \<and> bucketed r
      \<and> (similarity r \<le> 1 \<longleftrightarrow> c \<le> 1)"
  using compute_similarity_with_value [where lib = lib, OF assms]
  by (intro exI [of _ "clamped_result c"])
     (simp add: clamped_result_fields(1) clamped_result_bucketed)

lemma sum_sq_eq_1: "l2norm v = 1 \<Longrightarrow> sum_list (map (\<lambda>x. x * x) v) = 1"
  by (simp add: l2norm_def)

text \<open>
  Over the real numbers, for raw embeddings of one length that are not zero rows: the two
  embeddings compared are the raw rows divided by their Euclidean norms, each has squares
  summing to 1, and the similarity is their dot product clamped below at zero, which lies
  between 0 and 1.
\<close>

lemma similarity_over_the_reals:
  assumes model: "get_model env s = (Inr h, s1)"
    and ref: "image_open env reference_image_path = Inr ref_img"
      "encode_image env h ref_img = Inr ref_raw"
    and frame: "image_open env frame_image_path = Inr frame_img"
      "encode_image env h frame_img = Inr frame_raw"
    and dims: "length ref_raw = length frame_raw"
    and nz: "sum_list (map (\<lambda>x. x * x) ref_raw) \<noteq> 0"
      "sum_list (map (\<lambda>x. x * x) frame_raw) \<noteq> 0"
  shows "\<exists>ea eb r.
      embed_image env s reference_image_path = (Inr ea, s1)
      \<and> embed_image env s1 frame_image_path = (Inr eb, s1)
      \<and> ea = map (\<lambda>x. x / sqrt (sum_list (map (\<lambda>x. x * x) ref_raw))) ref_raw
      \<and> eb = map (\<lambda>x. x / sqrt (sum_list (map (\<lambda>x. x * x) frame_raw))) frame_raw
      \<and> sum_list (map (\<lambda>x. x * x) ea) = 1 \<and> sum_list (map (\<lambda>x. x * x) eb) = 1
      \<and> compute_similarity env s reference_image_path frame_image_path = (Inr r, s1)
      \<and> similarity r = max 0 (sum_list (map2 (*) ea eb))
      \<and> 0 \<le> similarity r \<and> similarity r \<le> 1 \<and> bucketed r"
proof -
  let ?ea = "l2_normalize ref_raw" and ?eb = "l2_normalize frame_raw"
  from nz have n: "l2norm ref_raw \<noteq> 0" "l2norm frame_raw \<noteq> 0"
    by (simp_all add: l2norm_def)
  then have u: "l2norm ?ea = 1" "l2norm ?eb = 1" by (simp_all add: l2norm_l2_normalize)
  from model have again: "get_model env s1 = (Inr h, s1)" by (rule get_model_again)
  from model ref have ea: "embed_image env s reference_image_path = (Inr ?ea, s1)"
    by (simp add: embed_image_Inr)
  from again frame have eb: "embed_image env s1 frame_image_path = (Inr ?eb, s1)"
    by (simp add: embed_image_Inr)
  from dims have c: "cosine_similarity ?ea ?eb = Inr (cosine ?ea ?eb)"
    by (simp add: cosine_similarity_same_length)
  have d: "cosine ?ea ?eb = sum_list (map2 (*) ?ea ?eb)"
    using u by (simp add: cosine_unit dot_def)
  have 1: "compute_similarity env s reference_image_path frame_image_path
      = (Inr (clamped_result (cosine ?ea ?eb)), s1)"
    by (rule compute_similarity_value [OF ea eb c])
  have shape: "?ea = map (\<lambda>x. x / sqrt (sum_list (map (\<lambda>x. x * x) ref_raw))) ref_raw"
    "?eb = map (\<lambda>x. x / sqrt (sum_list (map (\<lambda>x. x * x) frame_raw))) frame_raw"
    by (simp_all add: l2_normalize_def l2norm_def)
  have sim: "similarity (clamped_result (cosine ?ea ?eb)) = max 0 (sum_list (map2 (*) ?ea ?eb))"
    by (simp only: clamped_result_fields(1) d)
  have lo: "0 \<le> similarity (clamped_result (cosine ?ea ?eb))"
    and hi: "similarity (clamped_result (cosine ?ea ?eb)) \<le> 1"
    using cosine_bounds [of ?ea ?eb] by (simp_all add: clamped_result_fields(1))
  show ?thesis
    by (rule exI [of _ ?ea], rule exI [of _ ?eb],
        rule exI [of _ "clamped_result (cosine ?ea ?eb)"], intro conjI)
       (rule ea eb shape sum_sq_eq_1 [OF u(1)] sum_sq_eq_1 [OF u(2)] 1 sim lo hi
          clamped_result_bucketed)+
qed

lemma similarity_over_the_reals_demo:
  "\<exists>ea eb r.
      embed_image demo_clip initial_state ''ref.jpg'' = (Inr ea, loaded_state)
      \<and> embed_image demo_clip loaded_state ''frame.jpg'' = (Inr eb, loaded_state)
      \<and> ea = map (\<lambda>x. x / sqrt (sum_list (map (\<lambda>x. x * x) [3, 4]))) [3, 4]
      \<and> eb = map (\<lambda>x. x / sqrt (sum_list (map (\<lambda>x. x * x) [4, 3]))) [4, 3]
      \<and> sum_list (map (\<lambda>x. x * x) ea) = 1 \<and> sum_list (map (\<lambda>x. x * x) eb) = 1
      \<and> compute_similarity demo_clip initial_state ''ref.jpg'' ''frame.jpg'' = (Inr r, loaded_state)
      \<and> similarity r = max 0 (sum_list (map2 (*) ea eb))
      \<and> 0 \<le> similarity r \<and> similarity r \<le> 1 \<and> bucketed r"
  by (rule similarity_over_the_reals [OF demo_get_model(1) demo_open(1) demo_encode(1)
        demo_open(2) demo_encode(2)]) simp_all





lemma embed_reference_Inr:
  assumes "embed_reference env s p = (Inr er, s')"
  shows "embed_image env s p = (Inr (embedding er), s')"
    and "dimension er = length (embedding er)"
  using assms by (auto simp: embed_reference_def split: prod.splits sum.splits)

lemma demo_embed_reference:
  "embed_reference demo_clip initial_state ''ref.jpg''
     = (Inr \<lparr>embedding = [3 / 5, 4 / 5], dimension = 2\<rparr>, loaded_state)"
  by (simp add: embed_reference_def demo_embed)

text \<open>
  C2. When \<open>embed_reference\<close> succeeds on the reference image and the frame embeds to a
  row of the same length, \<open>compare_with_embedding\<close> on the frame and the serialized
  embedding list returns the very result of \<open>compute_similarity\<close> on the two images,
  whether it runs next in the same process or starts from the state the embedding started
  from.
\<close>

theorem embed_then_compare_equals_similarity:
  assumes er: "embed_reference env s reference_image_path = (Inr er, s1)"
    and ef: "embed_image env s1 frame_image_path = (Inr ef, s2)"
    and dims: "length (embedding er) = length ef"
  shows "\<exists>r.
      compute_similarity env s reference_image_path frame_image_path = (Inr r, s2)
      \<and> compare_with_embedding env s1 frame_image_path (JArr (map JNum (embedding er)))
          = (Inr r, s2)
      \<and> compare_with_embedding env s frame_image_path (JArr (map JNum (embedding er)))
          = (Inr r, s2)"
proof -
  from er have ea: "embed_image env s reference_image_path = (Inr (embedding er), s1)"
    by (rule embed_reference_Inr)
  then obtain h where h: "get_model env s = (Inr h, s1)"
    by (auto simp: embed_image_Inr)
  then have h1: "get_model env s1 = (Inr h, s1)" by (rule get_model_again)
  from ef h1 have s2: "s2 = s1" by (auto simp: embed_image_Inr)
  from dims have c: "cosine_similarity (embedding er) ef = Inr (cosine (embedding er) ef)"
    by (rule cosine_similarity_same_length)
  have "compute_similarity env s reference_image_path frame_image_path
      = (Inr (clamped_result (cosine (embedding er) ef)), s2)"
    by (rule compute_similarity_value [OF ea ef c])
  moreover have "compare_with_embedding env s1 frame_image_path (JArr (map JNum (embedding er)))
      = (Inr (clamped_result (cosine (embedding er) ef)), s2)"
    by (rule compare_with_embedding_value [OF h1 torch_tensor_floats ef c])
  moreover have "compare_with_embedding env s frame_image_path (JArr (map JNum (embedding er)))
      = (Inr (clamped_result (cosine (embedding er) ef)), s2)"
    by (rule compare_with_embedding_value [OF h torch_tensor_floats ef c])
  ultimately show ?thesis by blast
qed

theorem embed_then_compare_equals_similarity_witness:
  "\<exists>r.
      compute_similarity demo_clip initial_state ''ref.jpg'' ''frame.jpg'' = (Inr r, loaded_state)
      \<and> compare_with_embedding demo_clip loaded_state ''frame.jpg''
            (JArr (map JNum (embedding \<lparr>embedding = [3 / 5, 4 / 5], dimension = 2\<rparr>)))
          = (Inr r, loaded_state)
      \<and> compare_with_embedding demo_clip initial_state ''frame.jpg''
            (JArr (map JNum (embedding \<lparr>embedding = [3 / 5, 4 / 5], dimension = 2\<rparr>)))
          = (Inr r, loaded_state)"
  by (rule embed_then_compare_equals_similarity [OF demo_embed_reference demo_embed(4)]) simp

subsection \<open>Scaling the supplied embedding list\<close>

lemma dot_scale: "dot (map ((*) k) a) b = k * dot a b"
proof -
  have "sum_list (map2 (*) (map ((*) k) a) b) = k * sum_list (map2 (*) a b)"
  proof (induction a arbitrary: b)
    case (Cons x a)
    then show ?case by (cases b) (simp_all add: algebra_simps)
  qed simp
  then show ?thesis by (simp add: dot_def)
qed

lemma sum_sq_scale_mult:
  fixes k :: real
  shows "sum_list (map (\<lambda>x. x * x) (map ((*) k) v)) = (k * k) * sum_list (map (\<lambda>x. x * x) v)"
  by (induction v) (simp_all add: algebra_simps)

lemma l2norm_scale_mult: "l2norm (map ((*) k) v) = \<bar>k\<bar> * l2norm v"
  unfolding l2norm_def sum_sq_scale_mult by (simp add: real_sqrt_mult)

text \<open>
  The library's cosine divides by the norms, so a positive factor on the supplied list
  cancels as long as the norm of the list stays at or above \<open>eps\<close> before and after
  scaling. Only a list whose norm falls below \<open>eps = 1e-8\<close> is skewed.
\<close>

lemma cosine_scale_invariant_above_eps:
  assumes k: "0 < k" and n: "eps \<le> l2norm a" and kn: "eps \<le> k * l2norm a"
  shows "cosine (map ((*) k) a) b = cosine a b"
proof -
  have pos: "0 < l2norm a" using n eps_pos by linarith
  have m1: "max (l2norm (map ((*) k) a)) eps = k * l2norm a"
    using k kn by (simp add: l2norm_scale_mult max_def)
  have m2: "max (l2norm a) eps = l2norm a" using n by (simp add: max_def)
  show ?thesis
    using k pos by (simp add: cosine_def m1 m2 dot_scale)
qed

text \<open>
  C3. \<open>compare_with_embedding\<close> uses the supplied list as it is. For the frame
  \<^verbatim>\<open>unit.jpg\<close>, whose embedding is the row \<open>[1, 0]\<close>, the list \<open>[1e-9, 0]\<close> of norm
  \<open>1e-9\<close> gives similarity 0.1 and no match, while its normalized version and its
  multiple by \<open>1e9\<close> both give similarity 1 and a match of high confidence.
\<close>

theorem compare_with_embedding_not_scale_invariant:
  "l2norm [1 / 10 ^ 9, 0] = 1 / 10 ^ 9
   \<and> fst (compare_with_embedding demo_clip initial_state ''unit.jpg''
            (JArr (map JNum [1 / 10 ^ 9, 0])))
       = Inr \<lparr>similarity = 1 / 10, match = False, confidence = ''none''\<rparr>
   \<and> fst (compare_with_embedding demo_clip initial_state ''unit.jpg''
            (JArr (map JNum (l2_normalize [1 / 10 ^ 9, 0]))))
       = Inr \<lparr>similarity = 1, match = True, confidence = ''high''\<rparr>
   \<and> fst (compare_with_embedding demo_clip initial_state ''unit.jpg''
            (JArr (map JNum (map ((*) (10 ^ 9)) [1 / 10 ^ 9, 0]))))
       = Inr \<lparr>similarity = 1, match = True, confidence = ''high''\<rparr>"
proof -
  have n: "l2norm [1 / 10 ^ 9, 0] = 1 / 10 ^ 9"
    by (simp only: l2norm_axis) simp
  have small: "cosine [1 / 10 ^ 9, 0] [1, 0] = 1 / 10"
    by (simp add: cosine_def n l2norm_axis dot_def eps_def)
  have unit: "cosine [1, 0] [1, 0] = 1"
    by (simp add: cosine_def l2norm_axis dot_def eps_def)
  have cs_small: "cosine_similarity [1 / 10 ^ 9, 0] [1, 0] = Inr (1 / 10)"
    using cosine_similarity_same_length [of "[1 / 10 ^ 9, 0]" "[1, 0]"] small by simp
  have cs_unit: "cosine_similarity [1, 0] [1, 0] = Inr 1"
    using cosine_similarity_same_length [of "[1, 0]" "[1, 0]"] unit by simp
  have norm: "l2_normalize [1 / 10 ^ 9, 0] = [1, 0]"
    by (simp add: l2_normalize_def l2norm_axis)
  have scaled: "map ((*) (10 ^ 9)) [1 / 10 ^ 9, 0] = [1, 0 :: real]"
    by simp
  have 1: "compare_with_embedding demo_clip initial_state ''unit.jpg''
            (JArr (map JNum [1 / 10 ^ 9, 0])) = (Inr (clamped_result (1 / 10)), loaded_state)"
    by (rule compare_with_embedding_value
          [OF demo_get_model(1) torch_tensor_floats demo_embed(5) cs_small])
  have 2: "compare_with_embedding demo_clip initial_state ''unit.jpg''
            (JArr (map JNum [1, 0])) = (Inr (clamped_result 1), loaded_state)"
    by (rule compare_with_embedding_value
          [OF demo_get_model(1) torch_tensor_floats demo_embed(5) cs_unit])
  show ?thesis
    by (simp only: n norm scaled 1 2 demo_clamped fst_conv simp_thms)
qed

section \<open>The claims about the command line\<close>

lemma str_lower_commands:
  "str_lower ''embed'' = ''embed''"
  "str_lower ''compare'' = ''compare''"
  by (simp_all add: str_lower_def lower_char_def)

lemma demo_embed_corrupt:
  "embed_image demo_clip initial_state ''corrupt.jpg''
     = (Inl ''Failed to embed image: cannot identify image file'', loaded_state)"
  by (simp only: embed_image_def demo_get_model demo_open prod.case sum.case) simp

text \<open>The two sibling tools end every run in one of three ways: one error line and exit
  code 1, an uncaught exception (no line, exit code 1), or one result line and exit code
  0. In particular they never print an error line and exit with code 0.\<close>

lemma detect_main_outcomes:
  "(\<exists>e. detect_main env argv = \<lparr>stdout = [ErrorLine e], exit_code = 1\<rparr>)
   \<or> detect_main env argv = \<lparr>stdout = [], exit_code = 1\<rparr>
   \<or> (\<exists>objects. detect_main env argv = \<lparr>stdout = [ObjectsLine objects], exit_code = 0\<rparr>)"
  by (simp add: detect_main_def Let_def fail_with_def uncaught_def split: option.splits sum.splits)

lemma ocr_main_outcomes:
  "(\<exists>e. ocr_main env argv = \<lparr>stdout = [ErrorLine e], exit_code = 1\<rparr>)
   \<or> (\<exists>text. ocr_main env argv = \<lparr>stdout = [TextLine text], exit_code = 0\<rparr>)"
  by (simp add: ocr_main_def Let_def fail_with_def split: sum.splits)

text \<open>
  C4. The claim fails on the embedding tool. \<^verbatim>\<open>corrupt.jpg\<close> exists but cannot be
  decoded: the \<^verbatim>\<open>embed\<close> command prints the error object and the process ends with
  exit code 0. Called without a command, the tool prints two error lines.
\<close>

theorem clip_main_error_exits_zero:
  "clip_main demo_clip [''clip_similarity.py'', ''embed'', ''corrupt.jpg'']
     = (\<lparr>stdout = [ErrorLine ''Failed to embed image: cannot identify image file''],
         exit_code = 0\<rparr>, loaded_state)
   \<and> fst (clip_main demo_clip [''clip_similarity.py''])
     = \<lparr>stdout =
          [ErrorLine ''Usage: python clip_similarity.py <command> [args...]'',
           ErrorLine ''Commands: embed <image_path> | similarity <ref_path> <frame_path> | compare <frame_path> <embedding_json>''],
        exit_code = 1\<rparr>"
proof -
  have "embed_reference demo_clip initial_state ''corrupt.jpg''
      = (Inl ''Failed to embed image: cannot identify image file'', loaded_state)"
    by (simp add: embed_reference_def demo_embed_corrupt)
  then show ?thesis
    by (simp add: clip_main_def Let_def demo_clip_fields str_lower_commands result_line_def)
qed

text \<open>
  C8, as the claim states it, fails when the frame image is missing: the tool then reports
  the missing frame, not the format of the embedding file.
\<close>

theorem malformed_embedding_missing_frame_counterexample:
  "path_exists demo_clip ''no_key.json''
   \<and> json_load demo_clip ''no_key.json'' = Inr (JObj [(''dimension'', JNum 2)])
   \<and> ''embedding'' \<notin> set (map fst [(''dimension'', JNum 2)])
   \<and> fst (clip_main demo_clip [''clip_similarity.py'', ''compare'', ''missing.jpg'', ''no_key.json''])
       = \<lparr>stdout = [ErrorLine ''Frame image not found: missing.jpg''], exit_code = 1\<rparr>"
  by (simp add: clip_main_def Let_def demo_clip_fields str_lower_commands fail_with_def)

text \<open>
  C8, amended. When the imports succeed, the command is \<^verbatim>\<open>compare\<close>, the frame image and
  the embedding file exist, and the file parses as a JSON object without the key
  \<^verbatim>\<open>embedding\<close>, the tool prints the one line
  \<^verbatim>\<open>{"error": "Invalid embedding file format"}\<close> and exits with code 1, and the process
  state is still the initial one: the model cache is empty and no load has been run.
\<close>

theorem malformed_embedding_file_rejected:
  assumes "clip_installed env"
    and "str_lower command = ''compare''"
    and "path_exists env frame_path"
    and "path_exists env embedding_file"
    and "json_load env embedding_file = Inr (JObj kvs)"
    and "''embedding'' \<notin> set (map fst kvs)"
  shows "clip_main env (prog # command # frame_path # embedding_file # rest)
     = (\<lparr>stdout = [ErrorLine ''Invalid embedding file format''], exit_code = 1\<rparr>,
        \<lparr>model_cache = None, load_calls = 0\<rparr>)"
  using assms by (simp add: clip_main_def Let_def fail_with_def initial_state_def)

theorem malformed_embedding_file_rejected_witness:
  "clip_main demo_clip [''clip_similarity.py'', ''compare'', ''frame.jpg'', ''no_key.json'']
     = (\<lparr>stdout = [ErrorLine ''Invalid embedding file format''], exit_code = 1\<rparr>,
        \<lparr>model_cache = None, load_calls = 0\<rparr>)"
  by (rule malformed_embedding_file_rejected [of demo_clip "''compare''" "''frame.jpg''"
        "''no_key.json''" "[(''dimension'', JNum 2)]" "''clip_similarity.py''" "[]"])
     (simp_all add: demo_clip_fields str_lower_commands)

section \<open>The claims about the detector\<close>

lemma add_boxes_Inr:
  assumes "add_boxes names boxes d = Inr d'"
  shows "set d' = set d \<union> {str_lower name |name class_id. class_id \<in> set boxes \<and> names class_id = Some name}"
    and "distinct d \<Longrightarrow> distinct d'"
  using assms
proof (induction boxes arbitrary: d)
  case Nil
  {
    case 1
    then show ?case by simp
  next
    case 2
    then show ?case by simp
  }
next
  case (Cons class_id boxes)
  {
    case 1
    then obtain name where n: "names class_id = Some name"
      and rest: "add_boxes names boxes (List.insert (str_lower name) d) = Inr d'"
      by (auto split: option.splits)
    from Cons.IH(1) [OF rest] n show ?case by auto
  next
    case 2
    then obtain name where n: "names class_id = Some name"
      and rest: "add_boxes names boxes (List.insert (str_lower name) d) = Inr d'"
      by (auto split: option.splits)
    from Cons.IH(2) [OF _ rest] 2(1) show ?case by simp
  }
qed

lemma add_results_Inr:
  assumes "add_results names results d = Inr d'"
  shows "set d' = set d \<union> {str_lower name |name boxes class_id.
            Some boxes \<in> set results \<and> class_id \<in> set boxes \<and> names class_id = Some name}"
    and "distinct d \<Longrightarrow> distinct d'"
  using assms
proof (induction names results d rule: add_results.induct)
  case (1 names d)
  {
    case 1
    then show ?case by simp
  next
    case 2
    then show ?case by simp
  }
next
  case (2 names results d)
  {
    case 1
    with "2.IH"(1) show ?case by simp
  next
    case 2
    with "2.IH"(2) show ?case by simp
  }
next
  case (3 names boxes results d)
  {
    case 1
    then obtain d1 where b: "add_boxes names boxes d = Inr d1"
      and rest: "add_results names results d1 = Inr d'"
      by (auto split: sum.splits)
    from "3.IH"(1) [OF b rest] add_boxes_Inr(1) [OF b] show ?case by auto
  next
    case 2
    then obtain d1 where b: "add_boxes names boxes d = Inr d1"
      and rest: "add_results names results d1 = Inr d'"
      by (auto split: sum.splits)
    from add_boxes_Inr(2) [OF b 2(1)] have "distinct d1" .
    from "3.IH"(2) [OF b this rest] show ?case .
  }
qed

lemma add_results_no_boxes:
  "\<forall>r \<in> set results. r = None \<or> r = Some [] \<Longrightarrow> add_results names results d = Inr d"
  by (induction names results d rule: add_results.induct) auto

lemma list_of_set_props:
  "set (list_of_set order d) = set d" "distinct (list_of_set order d)"
  by (simp_all add: list_of_set_def)

text \<open>
  C7. A successful \<open>detect_objects\<close> returns a list without repetitions whose elements
  are exactly the lowercased names of the classes of the boxes the detector returned for
  the given image and threshold. When every result of the detector is without boxes, the
  tool, called with the default threshold or with a threshold that parses, prints
  \<^verbatim>\<open>{"objects": []}\<close> and exits with code 0.
\<close>

theorem detect_objects_distinct_lowercased:
  "(detect_objects env image_path threshold = Inr objects \<longrightarrow>
      (\<exists>model results.
          yolo_load env = Inr model
          \<and> yolo_predict env model image_path threshold = Inr results
          \<and> distinct objects
          \<and> set objects = {str_lower name |name boxes class_id.
                Some boxes \<in> set results \<and> class_id \<in> set boxes
                \<and> yolo_names env model class_id = Some name}))
   \<and> (yolo_installed env \<and> image_exists env image_path
        \<and> (args = [] \<and> c = 25 / 100 \<or> (\<exists>a rest. args = a # rest \<and> parse_float env a = Some c))
        \<and> yolo_load env = Inr model'
        \<and> yolo_predict env model' image_path c = Inr results'
        \<and> (\<forall>r \<in> set results'. r = None \<or> r = Some []) \<longrightarrow>
      detect_main env (prog # image_path # args) = \<lparr>stdout = [ObjectsLine []], exit_code = 0\<rparr>)"
proof (intro conjI impI)
  assume ok: "detect_objects env image_path threshold = Inr objects"
  then obtain model results d where m: "yolo_load env = Inr model"
    and p: "yolo_predict env model image_path threshold = Inr results"
    and d: "add_results (yolo_names env model) results [] = Inr d"
    and o: "objects = list_of_set (set_order env) d"
    by (auto simp: detect_objects_def split: sum.splits)
  from add_results_Inr [OF d] o
  have "distinct objects"
    and "set objects = {str_lower name |name boxes class_id.
            Some boxes \<in> set results \<and> class_id \<in> set boxes
            \<and> yolo_names env model class_id = Some name}"
    by (simp_all add: list_of_set_props)
  with m p show "\<exists>model results.
          yolo_load env = Inr model
          \<and> yolo_predict env model image_path threshold = Inr results
          \<and> distinct objects
          \<and> set objects = {str_lower name |name boxes class_id.
                Some boxes \<in> set results \<and> class_id \<in> set boxes
                \<and> yolo_names env model class_id = Some name}"
    by blast
next
  assume a: "yolo_installed env \<and> image_exists env image_path
        \<and> (args = [] \<and> c = 25 / 100 \<or> (\<exists>a rest. args = a # rest \<and> parse_float env a = Some c))
        \<and> yolo_load env = Inr model'
        \<and> yolo_predict env model' image_path c = Inr results'
        \<and> (\<forall>r \<in> set results'. r = None \<or> r = Some [])"
  then have "add_results (yolo_names env model') results' [] = Inr []"
    by (intro add_results_no_boxes) simp
  with a have det: "detect_objects env image_path c = Inr []"
    by (simp add: detect_objects_def list_of_set_def)
  from a have "(if length (prog # image_path # args) > 2
                then parse_float env ((prog # image_path # args) ! 2) else Some (25 / 100)) = Some c"
    by auto
  with a det show "detect_main env (prog # image_path # args)
      = \<lparr>stdout = [ObjectsLine []], exit_code = 0\<rparr>"
    by (simp add: detect_main_def Let_def)
qed


lemma demo_detect_fields:
  "yolo_installed demo_detect"
  "yolo_load demo_detect = Inr ()"
  "yolo_predict demo_detect m p c = (if p = ''park.jpg'' then Inr [Some [0, 16, 0]] else Inr [Some []])"
  "yolo_names demo_detect m = [0 \<mapsto> ''Person'', 16 \<mapsto> ''dog'']"
  "set_order demo_detect = length"
  "parse_float demo_detect a = (if a = ''0.5'' then Some (1 / 2) else None)"
  "image_exists demo_detect p"
  by (simp_all add: demo_detect_def)

lemma str_lower_names:
  "str_lower ''Person'' = ''person''" "str_lower ''dog'' = ''dog''"
  by (simp_all add: str_lower_def lower_char_def)

lemma demo_detect_park:
  "detect_objects demo_detect ''park.jpg'' (1 / 2) = Inr [''dog'', ''person'']"
  by (simp add: detect_objects_def demo_detect_fields str_lower_names list_of_set_def)

theorem detect_objects_distinct_lowercased_witness:
  "detect_objects demo_detect ''park.jpg'' (1 / 2) = Inr [''dog'', ''person'']
   \<and> distinct [''dog'', ''person'']
   \<and> set [''dog'', ''person''] = {str_lower name |name boxes class_id.
         Some boxes \<in> set [Some [0, 16, 0]] \<and> class_id \<in> set boxes
         \<and> yolo_names demo_detect () class_id = Some name}
   \<and> detect_main demo_detect [''detect.py'', ''empty.jpg'']
       = \<lparr>stdout = [ObjectsLine []], exit_code = 0\<rparr>
   \<and> detect_main demo_detect [''detect.py'', ''empty.jpg'', ''0.5'']
       = \<lparr>stdout = [ObjectsLine []], exit_code = 0\<rparr>"
  using detect_objects_distinct_lowercased [where env = demo_detect
      and image_path = "''park.jpg''" and threshold = "1 / 2"
      and objects = "[''dog'', ''person'']"]
    detect_objects_distinct_lowercased [where env = demo_detect
      and image_path = "''empty.jpg''" and args = "[]" and c = "25 / 100"
      and model' = "()" and results' = "[Some []]" and prog = "''detect.py''"]
    detect_objects_distinct_lowercased [where env = demo_detect
      and image_path = "''empty.jpg''" and args = "[''0.5'']" and c = "1 / 2"
      and model' = "()" and results' = "[Some []]" and prog = "''detect.py''"]
    demo_detect_park
  by (simp add: demo_detect_fields)

section \<open>The claims about the text extraction\<close>

lemma demo_ocr_fields:
  "tesseract_available demo_ocr"
  "ocr_image_open demo_ocr p = Inr ()"
  "image_to_string demo_ocr img Psm6 = Inr ''Acme Soda 12oz ''"
  "image_to_string demo_ocr img Psm11 = Inr '' SODA can''"
  "image_to_string demo_ocr img PsmDefault = Inr []"
  by (simp_all add: demo_ocr_def)

lemma block_pass_fails_fields:
  "tesseract_available block_pass_fails"
  "ocr_image_open block_pass_fails p = Inr ()"
  "image_to_string block_pass_fails img Psm6 = Inl ''Tesseract process timeout''"
  "image_to_string block_pass_fails img Psm11 = Inr ''SODA can''"
  "image_to_string block_pass_fails img PsmDefault = Inr []"
  by (simp_all add: block_pass_fails_def demo_ocr_def)

lemma demo_strip:
  "str_strip ''Acme Soda 12oz '' = ''Acme Soda 12oz''"
  "str_strip '' SODA can'' = ''SODA can''"
  "str_strip ''SODA can'' = ''SODA can''"
  "str_strip [] = []"
  by (simp_all add: str_strip_def is_space_def)

lemma demo_split:
  "str_split ''Acme Soda 12oz SODA can'' = [''Acme'', ''Soda'', ''12oz'', ''SODA'', ''can'']"
  by (simp add: str_split_def is_space_def)

lemma demo_unique:
  "unique_words [''Acme'', ''Soda'', ''12oz'', ''SODA'', ''can'']
     = [''Acme'', ''Soda'', ''12oz'', ''can'']"
  by (simp add: unique_words_def unique_step_def str_lower_def lower_char_def Let_def)

text \<open>The example of the specification: the passes read \<^verbatim>\<open>Acme Soda 12oz\<close>,
  \<^verbatim>\<open>SODA can\<close> and nothing, and the merged text is \<^verbatim>\<open>Acme Soda 12oz can\<close>.\<close>

lemma read_text_example: "read_text demo_ocr ''label.jpg'' = Inr ''Acme Soda 12oz can''"
  by (simp add: read_text_def demo_ocr_fields demo_strip demo_split demo_unique)

text \<open>
  C5. The claim fails when the first pass raises: the second pass read
  \<^verbatim>\<open>SODA can\<close>, which is neither empty nor a repetition of a collected pass, and
  \<open>read_text\<close> discards it and returns the empty string.
\<close>

theorem read_text_discards_sparse_pass_after_block_pass_raised:
  "image_to_string block_pass_fails () Psm6 = Inl ''Tesseract process timeout''
   \<and> image_to_string block_pass_fails () Psm11 = Inr ''SODA can''
   \<and> image_to_string block_pass_fails () PsmDefault = Inr []
   \<and> read_text block_pass_fails ''label.jpg'' = Inr []"
  by (simp add: read_text_def block_pass_fails_fields demo_strip)

text \<open>When the first pass returns, \<open>read_text\<close> is what the specification describes: a
  trimmed pass is kept unless it is empty or equal to a pass already kept, and the kept
  passes are joined, split into words, deduplicated and joined again.\<close>

lemma read_text_when_block_pass_returns:
  assumes "tesseract_available env" and "ocr_image_open env p = Inr img"
    and "image_to_string env img Psm6 = Inr out1"
    and "image_to_string env img Psm11 = Inr out2"
    and "image_to_string env img PsmDefault = Inr out3"
  shows "read_text env p =
     Inr (let texts = fold (\<lambda>t kept. if t \<noteq> [] \<and> t \<notin> set kept then kept @ [t] else kept)
                        [str_strip out1, str_strip out2, str_strip out3] []
          in if texts \<noteq> [] then str_join '' '' (unique_words (str_split (str_join '' '' texts)))
             else [])"
  using assms by (auto simp: read_text_def Let_def)


end
